theory Spec2Isabelle
  imports Main "HOL-Library.Word"
begin

section \<open>The LedBlinker topology: bring-up, tear-down and the simulated cycle\<close>

text \<open>
  The development embeds \<^verbatim>\<open>LedBlinker/Top/LedBlinkerTopology.cpp\<close>. The file
  consists of straight-line calls into components of the framework, one loop and a flag.
  A call into a component is recorded as an event, in program order, in the trace of the
  world; the globals the file declares and reads (the divisor and context arrays, the
  cycle flag) are fields of the world.
\<close>

subsection \<open>Data\<close>

text \<open>
  \<^verbatim>\<open>TopologyState\<close> is declared in a header of the deployment: a \<^verbatim>\<open>const char*\<close>
  host name, which may be \<^verbatim>\<open>nullptr\<close> (\<open>None\<close>), and a port number of an unsigned
  integer type \<open>'p\<close>; the functions below take it to be a machine word, of any width.
\<close>

record 'p TopologyState =
  hostname :: "string option"
  port :: 'p

text \<open>An allocator is known by the name of the object; the file declares one.\<close>

type_synonym allocator = string

definition mallocator :: allocator where
  "mallocator = ''mallocator''"

text \<open>The protocol handlers \<^verbatim>\<open>framing\<close> and \<^verbatim>\<open>deframing\<close>.\<close>

datatype protocol = framing | deframing

datatype rate_group = rateGroup1 | rateGroup2 | rateGroup3

datatype GpioDirection = GPIO_IN | GPIO_OUT

record PingEntry =
  warn :: nat
  fatal :: nat
  entryName :: string

record BufferBin =
  bufferSize :: int
  numBuffers :: int

text \<open>
  Constants of the framework that the file uses and does not define: the sizes of three
  arrays, the default stack size, and the ping thresholds of each component instance.
  Every array size is at least 1 in a program that compiles, and \<open>DIVIDER_SIZE\<close> is at
  least 3, the number of initialisers of \<^verbatim>\<open>rateGroupDivisors\<close>.
\<close>

record config =
  DIVIDER_SIZE :: nat
  CONNECTION_COUNT_MAX :: nat
  BUFFERMGR_MAX_NUM_BINS :: nat
  STACK_SIZE :: nat
  PingEntries_WARN :: "string \<Rightarrow> nat"
  PingEntries_FATAL :: "string \<Rightarrow> nat"

text \<open>The enumeration \<^verbatim>\<open>TopologyConstants\<close>.\<close>

definition CMD_SEQ_BUFFER_SIZE :: int where "CMD_SEQ_BUFFER_SIZE = 5 * 1024"
definition FILE_DOWNLINK_TIMEOUT :: int where "FILE_DOWNLINK_TIMEOUT = 1000"
definition FILE_DOWNLINK_COOLDOWN :: int where "FILE_DOWNLINK_COOLDOWN = 1000"
definition FILE_DOWNLINK_CYCLE_TIME :: int where "FILE_DOWNLINK_CYCLE_TIME = 1000"
definition FILE_DOWNLINK_FILE_QUEUE_DEPTH :: int where "FILE_DOWNLINK_FILE_QUEUE_DEPTH = 10"
definition HEALTH_WATCHDOG_CODE :: int where "HEALTH_WATCHDOG_CODE = 0x123"
definition COMM_PRIORITY :: int where "COMM_PRIORITY = 100"
definition UPLINK_BUFFER_MANAGER_STORE_SIZE :: int where "UPLINK_BUFFER_MANAGER_STORE_SIZE = 3000"
definition UPLINK_BUFFER_MANAGER_QUEUE_SIZE :: int where "UPLINK_BUFFER_MANAGER_QUEUE_SIZE = 30"
definition UPLINK_BUFFER_MANAGER_ID :: int where "UPLINK_BUFFER_MANAGER_ID = 200"

text \<open>
  The calls the file makes, each with the arguments it passes. The first four, and
  \<open>StartTasks\<close>, \<open>StopTasks\<close> and \<open>FreeThreads\<close>, are the generated functions of the
  topology; the others are methods of the component instances named in the constructor.
\<close>

datatype 'p event =
    InitComponents "'p TopologyState"
  | SetBaseIds
  | ConnectComponents
  | RegCommands
  | CmdSeq_allocateBuffer int allocator int
  | RateGroupDriver_configure "int list" nat
  | RateGroup_configure rate_group "int list" nat
  | FileDownlink_configure int int int int
  | PrmDb_configure string
  | PrmDb_readParamFile
  | Health_setPingEntries "PingEntry list" nat int
  | FileUplinkBufferManager_setup int int allocator "BufferBin list"
  | Downlink_setup protocol
  | Uplink_setup protocol
  | GpioDriver_open nat GpioDirection
  | Printf string
  | StartTasks "'p TopologyState"
  | Comm_configure string 'p
  | Comm_startSocketTask string bool int nat
  | StopTasks "'p TopologyState"
  | FreeThreads "'p TopologyState"
  | Comm_stopSocketTask
  | Comm_joinSocketTask
  | CmdSeq_deallocateBuffer allocator
  | FileUplinkBufferManager_cleanup
  | BlockDrv_callIsr
  | Task_delay "32 word"

text \<open>
  The world: the trace of calls made so far and the mutable globals of the file. The
  mutex \<^verbatim>\<open>cycleLock\<close> is held only around one read or one write of \<^verbatim>\<open>cycleFlag\<close>, so
  each locked section is one atomic step and the lock is free between steps.
\<close>

record 'p world =
  events :: "'p event list"
  rateGroupDivisors :: "int list"
  rateGroup1Context :: "int list"
  rateGroup2Context :: "int list"
  rateGroup3Context :: "int list"
  cycleFlag :: bool

text \<open>
  The state at process start, from the initialisers: \<^verbatim>\<open>{1, 2, 4}\<close> fills the first three
  divisors and the rest of the array is zero; \<^verbatim>\<open>{}\<close> makes every context zero;
  \<^verbatim>\<open>cycleFlag = true\<close>.
\<close>

definition initial_world :: "config \<Rightarrow> 'p world" where
  "initial_world cfg =
     \<lparr> events = [],
       rateGroupDivisors = [1, 2, 4] @ replicate (DIVIDER_SIZE cfg - 3) 0,
       rateGroup1Context = replicate (CONNECTION_COUNT_MAX cfg) 0,
       rateGroup2Context = replicate (CONNECTION_COUNT_MAX cfg) 0,
       rateGroup3Context = replicate (CONNECTION_COUNT_MAX cfg) 0,
       cycleFlag = True \<rparr>"

definition call :: "'p event \<Rightarrow> 'p world \<Rightarrow> 'p world" where
  "call e w = w\<lparr>events := events w @ [e]\<rparr>"

text \<open>The table \<^verbatim>\<open>pingEntries\<close>: instance, then the name given to the health component.\<close>

definition pingEntries :: "config \<Rightarrow> PingEntry list" where
  "pingEntries cfg =
     map (\<lambda>(inst, nm). \<lparr>warn = PingEntries_WARN cfg inst, fatal = PingEntries_FATAL cfg inst,
                         entryName = nm\<rparr>)
       [(''blockDrv'', ''blockDrv''),
        (''tlmSend'', ''chanTlm''),
        (''cmdDisp'', ''cmdDisp''),
        (''cmdSeq'', ''cmdSeq''),
        (''eventLogger'', ''eventLogger''),
        (''fileDownlink'', ''fileDownlink''),
        (''fileManager'', ''fileManager''),
        (''fileUplink'', ''fileUplink''),
        (''prmDb'', ''prmDb''),
        (''rateGroup1'', ''rateGroup1''),
        (''rateGroup2'', ''rateGroup2''),
        (''rateGroup3'', ''rateGroup3'')]"

text \<open>
  \<^verbatim>\<open>upBuffMgrBins\<close>: every bin zeroed by \<^verbatim>\<open>memset\<close>, then bin 0 set. The array has at
  least one bin, so the write is in range.
\<close>

definition upBuffMgrBins :: "config \<Rightarrow> BufferBin list" where
  "upBuffMgrBins cfg =
     (replicate (BUFFERMGR_MAX_NUM_BINS cfg) \<lparr>bufferSize = 0, numBuffers = 0\<rparr>)
       [0 := \<lparr>bufferSize = UPLINK_BUFFER_MANAGER_STORE_SIZE,
              numBuffers = UPLINK_BUFFER_MANAGER_QUEUE_SIZE\<rparr>]"

subsection \<open>Bring-up\<close>

text \<open>
  \<^verbatim>\<open>configureTopology\<close>. The one value the file reads back from a component is the
  result of \<^verbatim>\<open>gpioDriver.open\<close>; the driver is the parameter \<open>gpio\<close>.
\<close>

definition configureTopology ::
  "config \<Rightarrow> (nat \<Rightarrow> GpioDirection \<Rightarrow> bool) \<Rightarrow> 'p world \<Rightarrow> 'p world" where
  "configureTopology cfg gpio w0 =
     (let w1 = call (CmdSeq_allocateBuffer 0 mallocator CMD_SEQ_BUFFER_SIZE) w0;
          w2 = call (RateGroupDriver_configure (rateGroupDivisors w1)
                       (length (rateGroupDivisors w1))) w1;
          w3 = call (RateGroup_configure rateGroup1 (rateGroup1Context w2)
                       (length (rateGroup1Context w2))) w2;
          w4 = call (RateGroup_configure rateGroup2 (rateGroup2Context w3)
                       (length (rateGroup2Context w3))) w3;
          w5 = call (RateGroup_configure rateGroup3 (rateGroup3Context w4)
                       (length (rateGroup3Context w4))) w4;
          w6 = call (FileDownlink_configure FILE_DOWNLINK_TIMEOUT FILE_DOWNLINK_COOLDOWN
                       FILE_DOWNLINK_CYCLE_TIME FILE_DOWNLINK_FILE_QUEUE_DEPTH) w5;
          w7 = call (PrmDb_configure ''PrmDb.dat'') w6;
          w8 = call PrmDb_readParamFile w7;
          w9 = call (Health_setPingEntries (pingEntries cfg) (length (pingEntries cfg))
                       HEALTH_WATCHDOG_CODE) w8;
          w10 = call (FileUplinkBufferManager_setup UPLINK_BUFFER_MANAGER_ID 0 mallocator
                        (upBuffMgrBins cfg)) w9;
          w11 = call (Downlink_setup framing) w10;
          w12 = call (Uplink_setup deframing) w11;
          gpio_success = gpio 13 GPIO_OUT;
          w13 = call (GpioDriver_open 13 GPIO_OUT) w12
      in if \<not> gpio_success
         then call (Printf ''[ERROR] Failed to open GPIO pin\<newline>'') w13
         else w13)"

definition setupTopology ::
  "config \<Rightarrow> (nat \<Rightarrow> GpioDirection \<Rightarrow> bool) \<Rightarrow> ('w::len) word TopologyState \<Rightarrow>
   'w word world \<Rightarrow> 'w word world" where
  "setupTopology cfg gpio state w0 =
     (let w1 = call (InitComponents state) w0;
          w2 = call SetBaseIds w1;
          w3 = call ConnectComponents w2;
          w4 = call RegCommands w3;
          w5 = configureTopology cfg gpio w4;
          w6 = call (StartTasks state) w5
      in if hostname state \<noteq> None \<and> port state \<noteq> 0
         then let name = ''ReceiveTask'';
                  w7 = call (Comm_configure (the (hostname state)) (port state)) w6
              in call (Comm_startSocketTask name True COMM_PRIORITY (STACK_SIZE cfg)) w7
         else w6)"

subsection \<open>Tear-down\<close>

definition teardownTopology :: "'p TopologyState \<Rightarrow> 'p world \<Rightarrow> 'p world" where
  "teardownTopology state w0 =
     (let w1 = call (StopTasks state) w0;
          w2 = call (FreeThreads state) w1;
          w3 = call Comm_stopSocketTask w2;
          w4 = call Comm_joinSocketTask w3;
          w5 = call (CmdSeq_deallocateBuffer mallocator) w4
      in call FileUplinkBufferManager_cleanup w5)"

subsection \<open>The simulated cycle\<close>

text \<open>
  \<^verbatim>\<open>stopSimulatedCycle\<close>: lock, clear the flag, unlock; one atomic step.
\<close>

definition stopSimulatedCycle :: "'p world \<Rightarrow> 'p world" where
  "stopSimulatedCycle w = w\<lparr>cycleFlag := False\<rparr>"

text \<open>
  \<^verbatim>\<open>startSimulatedCycle\<close> runs on its own thread while another thread may call
  \<^verbatim>\<open>stopSimulatedCycle\<close>, so it is a machine that takes one step at a time. The
  thread is at one of five places: at the locked read before the loop, at the call of the
  tick, at the delay, at the locked read that ends an iteration, or returned. Its one
  local variable is \<^verbatim>\<open>cycling\<close>; the test of the \<^verbatim>\<open>while\<close> reads only that
  variable and is part of the step of the read before it.
\<close>

datatype cycle_pc = Entry_read | Loop_callIsr | Loop_delay | Loop_read | Returned

record cycle_thread =
  pc :: cycle_pc
  cycling :: bool

definition read_cycleFlag :: "cycle_thread \<times> 'p world \<Rightarrow> cycle_thread \<times> 'p world" where
  "read_cycleFlag s =
     (case s of (t, w) \<Rightarrow>
        (let c = cycleFlag w
         in (\<lparr>pc = (if c then Loop_callIsr else Returned), cycling = c\<rparr>, w)))"

definition startSimulatedCycle_step ::
  "32 word \<Rightarrow> cycle_thread \<times> 'p world \<Rightarrow> cycle_thread \<times> 'p world" where
  "startSimulatedCycle_step milliseconds s =
     (case s of (t, w) \<Rightarrow>
        (case pc t of
           Entry_read \<Rightarrow> read_cycleFlag (t, w)
         | Loop_callIsr \<Rightarrow> (t\<lparr>pc := Loop_delay\<rparr>, call BlockDrv_callIsr w)
         | Loop_delay \<Rightarrow> (t\<lparr>pc := Loop_read\<rparr>, call (Task_delay milliseconds) w)
         | Loop_read \<Rightarrow> read_cycleFlag (t, w)
         | Returned \<Rightarrow> (t, w)))"

text \<open>
  The two threads together: the cycle thread takes its next step unless it has returned,
  or some thread calls \<^verbatim>\<open>stopSimulatedCycle\<close>.
\<close>

definition sys_step ::
  "32 word \<Rightarrow> cycle_thread \<times> 'p world \<Rightarrow> cycle_thread \<times> 'p world \<Rightarrow> bool" where
  "sys_step milliseconds s s' =
     ((pc (fst s) \<noteq> Returned \<and> s' = startSimulatedCycle_step milliseconds s)
      \<or> s' = (fst s, stopSimulatedCycle (snd s)))"

definition ticks :: "cycle_thread \<times> 'p world \<Rightarrow> nat" where
  "ticks s = length (filter (\<lambda>e. e = BlockDrv_callIsr) (events (snd s)))"

subsection \<open>Reading a trace\<close>

text \<open>The calls an operation adds to the trace of the world it starts from.\<close>

definition trace_of :: "('p world \<Rightarrow> 'p world) \<Rightarrow> 'p world \<Rightarrow> 'p event list" where
  "trace_of f w = drop (length (events w)) (events (f w))"

text \<open>Several calls in a row.\<close>

definition calls :: "'p event list \<Rightarrow> 'p world \<Rightarrow> 'p world" where
  "calls tr w = w\<lparr>events := events w @ tr\<rparr>"

text \<open>The calls of each function, written out as lists.\<close>

definition wiring_calls :: "'p TopologyState \<Rightarrow> 'p event list" where
  "wiring_calls state = [InitComponents state, SetBaseIds, ConnectComponents, RegCommands]"

definition configure_calls :: "config \<Rightarrow> 'p world \<Rightarrow> 'p event list" where
  "configure_calls cfg w =
     [CmdSeq_allocateBuffer 0 mallocator CMD_SEQ_BUFFER_SIZE,
      RateGroupDriver_configure (rateGroupDivisors w) (length (rateGroupDivisors w)),
      RateGroup_configure rateGroup1 (rateGroup1Context w) (length (rateGroup1Context w)),
      RateGroup_configure rateGroup2 (rateGroup2Context w) (length (rateGroup2Context w)),
      RateGroup_configure rateGroup3 (rateGroup3Context w) (length (rateGroup3Context w)),
      FileDownlink_configure FILE_DOWNLINK_TIMEOUT FILE_DOWNLINK_COOLDOWN
        FILE_DOWNLINK_CYCLE_TIME FILE_DOWNLINK_FILE_QUEUE_DEPTH,
      PrmDb_configure ''PrmDb.dat'',
      PrmDb_readParamFile,
      Health_setPingEntries (pingEntries cfg) (length (pingEntries cfg)) HEALTH_WATCHDOG_CODE,
      FileUplinkBufferManager_setup UPLINK_BUFFER_MANAGER_ID 0 mallocator (upBuffMgrBins cfg),
      Downlink_setup framing,
      Uplink_setup deframing,
      GpioDriver_open 13 GPIO_OUT]"

definition gpio_error_line :: "'p event" where
  "gpio_error_line = Printf ''[ERROR] Failed to open GPIO pin\<newline>''"

definition network_calls :: "config \<Rightarrow> ('p::zero) TopologyState \<Rightarrow> 'p event list" where
  "network_calls cfg state =
     (case hostname state of
        None \<Rightarrow> []
      | Some h \<Rightarrow>
          if port state = 0 then []
          else [Comm_configure h (port state),
                Comm_startSocketTask ''ReceiveTask'' True COMM_PRIORITY (STACK_SIZE cfg)])"

definition teardown_calls :: "'p TopologyState \<Rightarrow> 'p event list" where
  "teardown_calls state =
     [StopTasks state, FreeThreads state, Comm_stopSocketTask, Comm_joinSocketTask,
      CmdSeq_deallocateBuffer mallocator, FileUplinkBufferManager_cleanup]"

text \<open>Calls on the socket component \<^verbatim>\<open>comm\<close>, and the calls that start its task.\<close>

fun is_comm_call :: "'p event \<Rightarrow> bool" where
  "is_comm_call (Comm_configure h p) = True"
| "is_comm_call (Comm_startSocketTask n b pr st) = True"
| "is_comm_call Comm_stopSocketTask = True"
| "is_comm_call Comm_joinSocketTask = True"
| "is_comm_call _ = False"

fun is_socket_task_start :: "'p event \<Rightarrow> bool" where
  "is_socket_task_start (Comm_startSocketTask n b pr st) = True"
| "is_socket_task_start _ = False"

fun is_Printf :: "'p event \<Rightarrow> bool" where
  "is_Printf (Printf l) = True"
| "is_Printf _ = False"

text \<open>
  The step of bring-up a call belongs to: 1 for construction and wiring, 2 for the
  configuration of components, 3 for the start of the tasks of active components, 4 for
  the network task; 0 for a call that is not part of bring-up.
\<close>

fun phase :: "'p event \<Rightarrow> nat" where
  "phase (InitComponents s) = 1"
| "phase SetBaseIds = 1"
| "phase ConnectComponents = 1"
| "phase RegCommands = 1"
| "phase (CmdSeq_allocateBuffer i a n) = 2"
| "phase (RateGroupDriver_configure ds n) = 2"
| "phase (RateGroup_configure g cs n) = 2"
| "phase (FileDownlink_configure a b c d) = 2"
| "phase (PrmDb_configure f) = 2"
| "phase PrmDb_readParamFile = 2"
| "phase (Health_setPingEntries es n c) = 2"
| "phase (FileUplinkBufferManager_setup i m a bs) = 2"
| "phase (Downlink_setup p) = 2"
| "phase (Uplink_setup p) = 2"
| "phase (GpioDriver_open n d) = 2"
| "phase (Printf l) = 2"
| "phase (StartTasks s) = 3"
| "phase (Comm_configure h p) = 4"
| "phase (Comm_startSocketTask n b pr st) = 4"
| "phase _ = 0"

subsection \<open>Resources\<close>

datatype resource = CmdSeqBuffer | UplinkBufferPool

fun acquired :: "'p event \<Rightarrow> resource option" where
  "acquired (CmdSeq_allocateBuffer i a n) = Some CmdSeqBuffer"
| "acquired (FileUplinkBufferManager_setup i m a bs) = Some UplinkBufferPool"
| "acquired _ = None"

fun released :: "'p event \<Rightarrow> resource option" where
  "released (CmdSeq_deallocateBuffer a) = Some CmdSeqBuffer"
| "released FileUplinkBufferManager_cleanup = Some UplinkBufferPool"
| "released _ = None"

definition acquisition_order :: "'p event list \<Rightarrow> resource list" where
  "acquisition_order tr = List.map_filter acquired tr"

definition release_order :: "'p event list \<Rightarrow> resource list" where
  "release_order tr = List.map_filter released tr"

text \<open>
  Modelled from the spec: the pairing of a resource handle with its release, which the
  file leaves to the components. A handle is a resource bound to the allocator that
  produced it. An allocation adds a handle; a release takes the handle of that resource
  out, and is an \<open>InvalidHandleError\<close> when no such handle is held or when it names
  another allocator. \<^verbatim>\<open>cleanup()\<close> names no allocator: the pool returns its memory to
  the allocator it was set up with.
\<close>

datatype ledger_error = InvalidHandleError resource

record ledger =
  held :: "(resource \<times> allocator) list"
  returned :: "(resource \<times> allocator) list"
  errors :: "ledger_error list"

definition acquire :: "resource \<Rightarrow> allocator \<Rightarrow> ledger \<Rightarrow> ledger" where
  "acquire r a l = l\<lparr>held := held l @ [(r, a)]\<rparr>"

definition release :: "resource \<Rightarrow> allocator option \<Rightarrow> ledger \<Rightarrow> ledger" where
  "release r ao l =
     (case find (\<lambda>h. fst h = r) (held l) of
        None \<Rightarrow> l\<lparr>errors := errors l @ [InvalidHandleError r]\<rparr>
      | Some h \<Rightarrow>
          if ao = None \<or> ao = Some (snd h)
          then l\<lparr>held := remove1 h (held l), returned := returned l @ [h]\<rparr>
          else l\<lparr>errors := errors l @ [InvalidHandleError r]\<rparr>)"

fun ledger_step :: "'p event \<Rightarrow> ledger \<Rightarrow> ledger" where
  "ledger_step (CmdSeq_allocateBuffer i a n) l = acquire CmdSeqBuffer a l"
| "ledger_step (FileUplinkBufferManager_setup i m a bs) l = acquire UplinkBufferPool a l"
| "ledger_step (CmdSeq_deallocateBuffer a) l = release CmdSeqBuffer (Some a) l"
| "ledger_step FileUplinkBufferManager_cleanup l = release UplinkBufferPool None l"
| "ledger_step _ l = l"

definition ledger_of :: "'p event list \<Rightarrow> ledger" where
  "ledger_of tr = fold ledger_step tr \<lparr>held = [], returned = [], errors = []\<rparr>"

text \<open>
  Modelled from the spec: \<open>RateClockConfig::validate()\<close>, which the file does not
  have. Every divisor is at least 1 and the sequence is not empty, or the result is a
  \<open>ConfigurationError\<close>.
\<close>

datatype config_error = ConfigurationError

definition RateClockConfig_validate :: "int list \<Rightarrow> config_error + int list" where
  "RateClockConfig_validate ds =
     (if ds = [] \<or> list_ex (\<lambda>d. d < 1) ds then Inl ConfigurationError else Inr ds)"

subsection \<open>Concrete inputs\<close>

text \<open>
  A configuration, two drivers and three states at which the model is evaluated, and three
  moments of one run of the cycle thread with a period of 1000 milliseconds.
\<close>

definition example_config :: config where
  "example_config =
     \<lparr> DIVIDER_SIZE = 3, CONNECTION_COUNT_MAX = 2, BUFFERMGR_MAX_NUM_BINS = 2,
       STACK_SIZE = 65536, PingEntries_WARN = (\<lambda>_. 3), PingEntries_FATAL = (\<lambda>_. 5) \<rparr>"

definition gpio_ok :: "nat \<Rightarrow> GpioDirection \<Rightarrow> bool" where
  "gpio_ok pin dir = True"

definition gpio_failing :: "nat \<Rightarrow> GpioDirection \<Rightarrow> bool" where
  "gpio_failing pin dir = False"

definition state_no_endpoint :: "16 word TopologyState" where
  "state_no_endpoint = \<lparr>hostname = None, port = 0\<rparr>"

definition state_localhost :: "16 word TopologyState" where
  "state_localhost = \<lparr>hostname = Some ''127.0.0.1'', port = 50000\<rparr>"

definition state_empty_host :: "16 word TopologyState" where
  "state_empty_host = \<lparr>hostname = Some [], port = 50000\<rparr>"

definition thread_at_entry :: "cycle_thread \<times> 16 word world" where
  "thread_at_entry = (\<lparr>pc = Entry_read, cycling = False\<rparr>, initial_world example_config)"

definition thread_stopped_before_tick :: "cycle_thread \<times> 16 word world" where
  "thread_stopped_before_tick =
     (\<lparr>pc = Loop_callIsr, cycling = True\<rparr>, stopSimulatedCycle (initial_world example_config))"

definition thread_returned :: "cycle_thread \<times> 16 word world" where
  "thread_returned =
     (\<lparr>pc = Returned, cycling = False\<rparr>,
      (initial_world example_config)
        \<lparr>events := [BlockDrv_callIsr, Task_delay 1000], cycleFlag := False\<rparr>)"

subsection \<open>Invariants of the simulated cycle\<close>

text \<open>
  With the flag false, the tick still to come: one when the thread stands at the call of
  the tick, none elsewhere.
\<close>

definition pending_ticks :: "cycle_thread \<times> 'p world \<Rightarrow> nat" where
  "pending_ticks s = (if pc (fst s) = Loop_callIsr then 1 else 0)"

text \<open>A thread that has returned read the flag false, and the flag is false.\<close>

definition returned_ok :: "cycle_thread \<times> 'p world \<Rightarrow> bool" where
  "returned_ok s =
     (if pc (fst s) = Returned then \<not> cycling (fst s) \<and> \<not> cycleFlag (snd s) else True)"

section \<open>Properties\<close>

subsection \<open>The calls each function makes\<close>

lemma call_calls: "call e w = calls [e] w"
  by (simp add: call_def calls_def)

lemma calls_calls: "calls tr2 (calls tr1 w) = calls (tr1 @ tr2) w"
  by (simp add: calls_def)

lemma calls_fields:
  "events (calls tr w) = events w @ tr"
  "rateGroupDivisors (calls tr w) = rateGroupDivisors w"
  "rateGroup1Context (calls tr w) = rateGroup1Context w"
  "rateGroup2Context (calls tr w) = rateGroup2Context w"
  "rateGroup3Context (calls tr w) = rateGroup3Context w"
  "cycleFlag (calls tr w) = cycleFlag w"
  by (simp_all add: calls_def)

lemma configureTopology_eq:
  "configureTopology cfg gpio w =
     calls (configure_calls cfg w @ (if gpio 13 GPIO_OUT then [] else [gpio_error_line])) w"
  by (simp add: configureTopology_def configure_calls_def gpio_error_line_def call_calls
       calls_calls calls_fields Let_def)

lemma configure_calls_calls: "configure_calls cfg (calls tr w) = configure_calls cfg w"
  by (simp add: configure_calls_def calls_fields)

lemma setupTopology_eq:
  "setupTopology cfg gpio state w =
     calls (wiring_calls state @ configure_calls cfg w
          @ (if gpio 13 GPIO_OUT then [] else [gpio_error_line])
          @ [StartTasks state] @ network_calls cfg state) w"
  by (cases "hostname state")
     (simp_all add: setupTopology_def configureTopology_eq wiring_calls_def network_calls_def
        configure_calls_calls call_calls calls_calls Let_def)

lemma teardownTopology_eq:
  "teardownTopology state w = calls (teardown_calls state) w"
  by (simp add: teardownTopology_def teardown_calls_def call_calls calls_calls Let_def)

lemma trace_of_calls: "f w = calls tr w \<Longrightarrow> trace_of f w = tr"
  by (simp add: trace_of_def calls_fields)

lemma trace_of_setupTopology:
  "trace_of (setupTopology cfg gpio state) w =
     wiring_calls state @ configure_calls cfg w
       @ (if gpio 13 GPIO_OUT then [] else [gpio_error_line])
       @ [StartTasks state] @ network_calls cfg state"
  by (rule trace_of_calls) (rule setupTopology_eq)

lemma trace_of_teardownTopology:
  "trace_of (teardownTopology state) w = teardown_calls state"
  by (rule trace_of_calls) (rule teardownTopology_eq)

lemma trace_of_setup_teardown:
  "trace_of (\<lambda>v. teardownTopology state' (setupTopology cfg gpio state v)) w =
     trace_of (setupTopology cfg gpio state) w @ teardown_calls state'"
  by (rule trace_of_calls)
     (simp add: teardownTopology_eq setupTopology_eq calls_calls trace_of_setupTopology)

lemma acquisition_order_setup:
  "acquisition_order (trace_of (setupTopology cfg gpio state) w) = [CmdSeqBuffer, UplinkBufferPool]"
  by (cases "hostname state")
     (simp_all add: trace_of_setupTopology acquisition_order_def List.map_filter_def
        wiring_calls_def configure_calls_def gpio_error_line_def network_calls_def)

lemma release_order_teardown:
  "release_order (trace_of (teardownTopology state) w) = [CmdSeqBuffer, UplinkBufferPool]"
  by (simp add: trace_of_teardownTopology release_order_def List.map_filter_def teardown_calls_def)

subsection \<open>Order of release\<close>

text \<open>
  C1, as amended. Bring-up acquires the command-sequence buffer first and the uplink
  buffer pool second, and tear-down releases them in that same order, whatever the state,
  the driver and the world: the command-sequence buffer is deallocated first and the
  uplink buffer pool is cleaned up second.
\<close>

theorem teardown_releases_in_acquisition_order:
  "acquisition_order (trace_of (setupTopology cfg gpio state) w) = [CmdSeqBuffer, UplinkBufferPool]
   \<and> release_order (trace_of (teardownTopology state') w') = [CmdSeqBuffer, UplinkBufferPool]"
  by (simp add: acquisition_order_setup release_order_teardown)

text \<open>
  The claim as written asks for the reverse order. After a bring-up with host
  \<open>127.0.0.1\<close> and port 50000, the releases of tear-down are not the reverse of the
  acquisitions.
\<close>

theorem teardown_reverse_order_counterexample:
  "release_order (trace_of (teardownTopology state_localhost)
       (setupTopology example_config gpio_ok state_localhost (initial_world example_config)))
   \<noteq> rev (acquisition_order (trace_of (setupTopology example_config gpio_ok state_localhost)
       (initial_world example_config)))"
  by (simp add: acquisition_order_setup release_order_teardown)

subsection \<open>The network task\<close>

lemma comm_calls_setup:
  "filter is_comm_call (trace_of (setupTopology cfg gpio state) w) = network_calls cfg state"
  by (cases "hostname state")
     (simp_all add: trace_of_setupTopology wiring_calls_def configure_calls_def
        gpio_error_line_def network_calls_def)

text \<open>
  C2, as amended. Bring-up starts the network receive task if and only if the host name
  of the state is present (not \<^verbatim>\<open>nullptr\<close>) and its port is not zero. It then makes
  exactly two calls on \<^verbatim>\<open>comm\<close>: it configures the host and the port of the state,
  and starts one task, named \<open>ReceiveTask\<close>. Otherwise it makes no call on \<^verbatim>\<open>comm\<close>.
  The test is on the pointer, so a host name that is present and empty counts as present.
\<close>

theorem network_task_iff_host_present_and_port_nonzero:
  "filter is_comm_call (trace_of (setupTopology cfg gpio state) w) =
     (if hostname state \<noteq> None \<and> port state \<noteq> 0
      then [Comm_configure (the (hostname state)) (port state),
            Comm_startSocketTask ''ReceiveTask'' True COMM_PRIORITY (STACK_SIZE cfg)]
      else [])
   \<and> length (filter is_socket_task_start (trace_of (setupTopology cfg gpio state) w)) =
     (if hostname state \<noteq> None \<and> port state \<noteq> 0 then 1 else 0)"
  by (cases "hostname state")
     (simp_all add: trace_of_setupTopology wiring_calls_def configure_calls_def
        gpio_error_line_def network_calls_def)

text \<open>
  The claim as written says that an empty host string starts no network task. With the
  empty string as host and port 50000, bring-up starts the task.
\<close>

theorem empty_host_starts_network_task_counterexample:
  "hostname state_empty_host = Some ''''
   \<and> filter is_socket_task_start
       (trace_of (setupTopology example_config gpio_ok state_empty_host)
          (initial_world example_config)) =
     [Comm_startSocketTask ''ReceiveTask'' True 100 65536]"
  by (simp add: trace_of_setupTopology wiring_calls_def configure_calls_def gpio_ok_def
        network_calls_def state_empty_host_def COMM_PRIORITY_def example_config_def)

subsection \<open>Order of the steps of bring-up\<close>

text \<open>
  C3. In every run of bring-up the calls come in the order of the four steps: the four
  calls of construction and wiring (construct, assign ids, connect ports, register
  commands), then the calls that configure components (13 of them, and the error line
  when the hardware line fails to open), then the start of the tasks of the active
  components, then the two calls for the network task when the state has an endpoint,
  of which the first configures the socket and the second starts its task. No call of a
  later step comes before a call of an earlier one.
\<close>

theorem setup_steps_in_order:
  "map phase (trace_of (setupTopology cfg gpio state) w) =
     replicate 4 1 @ replicate (if gpio 13 GPIO_OUT then 13 else 14) 2 @ [3]
       @ replicate (if hostname state \<noteq> None \<and> port state \<noteq> 0 then 2 else 0) 4
   \<and> sorted (map phase (trace_of (setupTopology cfg gpio state) w))
   \<and> take 4 (trace_of (setupTopology cfg gpio state) w) =
       [InitComponents state, SetBaseIds, ConnectComponents, RegCommands]
   \<and> filter (\<lambda>e. phase e = 3) (trace_of (setupTopology cfg gpio state) w) =
       [StartTasks state]
   \<and> filter (\<lambda>e. phase e = 4) (trace_of (setupTopology cfg gpio state) w) =
       (if hostname state \<noteq> None \<and> port state \<noteq> 0
        then [Comm_configure (the (hostname state)) (port state),
              Comm_startSocketTask ''ReceiveTask'' True COMM_PRIORITY (STACK_SIZE cfg)]
        else [])"
  by (cases "hostname state")
     (simp_all add: trace_of_setupTopology wiring_calls_def configure_calls_def
        gpio_error_line_def network_calls_def numeral_eq_Suc)

subsection \<open>Every resource released once\<close>

text \<open>
  C4. After bring-up the ledger holds two handles, the command-sequence buffer and the
  uplink buffer pool, both of the allocator \<^verbatim>\<open>mallocator\<close>. After bring-up and one
  tear-down it holds none: each handle has been returned once, to \<^verbatim>\<open>mallocator\<close>, and
  no release was an error. Tear-down makes exactly one release call for each.
\<close>

theorem resources_released_once_to_their_allocator:
  "ledger_of (trace_of (setupTopology cfg gpio state) w) =
     \<lparr>held = [(CmdSeqBuffer, mallocator), (UplinkBufferPool, mallocator)],
      returned = [], errors = []\<rparr>
   \<and> ledger_of (trace_of (\<lambda>v. teardownTopology state (setupTopology cfg gpio state v)) w) =
     \<lparr>held = [],
      returned = [(CmdSeqBuffer, mallocator), (UplinkBufferPool, mallocator)],
      errors = []\<rparr>
   \<and> filter (\<lambda>e. released e \<noteq> None) (trace_of (teardownTopology state) w') =
     [CmdSeq_deallocateBuffer mallocator, FileUplinkBufferManager_cleanup]"
  by (cases "hostname state")
     (simp_all add: trace_of_setup_teardown trace_of_teardownTopology trace_of_setupTopology
        wiring_calls_def configure_calls_def
        gpio_error_line_def network_calls_def teardown_calls_def ledger_of_def
        acquire_def release_def)

subsection \<open>Tear-down without bring-up\<close>

text \<open>
  C5, as amended. Tear-down has no guard and no result. For every state and every world,
  with or without a bring-up before it, it makes the same six calls (stop the tasks, free
  the threads, stop and join the socket task, deallocate the command-sequence buffer,
  clean up the uplink buffer pool) and changes nothing else.
\<close>

theorem teardown_has_no_guard:
  "teardownTopology state w =
     w\<lparr>events := events w @
        [StopTasks state, FreeThreads state, Comm_stopSocketTask, Comm_joinSocketTask,
         CmdSeq_deallocateBuffer mallocator, FileUplinkBufferManager_cleanup]\<rparr>"
  by (simp add: teardownTopology_eq teardown_calls_def calls_def)

text \<open>
  The claim as written says that tear-down without bring-up stops no task and releases
  nothing. From the world at process start, where no call has been made, tear-down stops
  the tasks and releases both resources.
\<close>

theorem teardown_without_setup_counterexample:
  "events (initial_world example_config :: 16 word world) = []
   \<and> events (teardownTopology state_no_endpoint (initial_world example_config)) =
     [StopTasks state_no_endpoint, FreeThreads state_no_endpoint, Comm_stopSocketTask,
      Comm_joinSocketTask, CmdSeq_deallocateBuffer mallocator, FileUplinkBufferManager_cleanup]"
  by (simp add: teardownTopology_eq teardown_calls_def calls_fields initial_world_def)

subsection \<open>The rate divisors\<close>

text \<open>
  C6, as amended. Bring-up does not validate the divisor sequence and has no error
  result. Whatever the array \<^verbatim>\<open>rateGroupDivisors\<close> holds, bring-up passes it as it is,
  with its number of elements, to the rate group driver, in its sixth call; every other
  call is the same, and the array is left as it was. With three divisors the array holds
  1, 2, 4 at process start, a sequence that the validation of the spec accepts.
\<close>

theorem divisors_passed_unvalidated:
  "trace_of (setupTopology cfg gpio state) (w\<lparr>rateGroupDivisors := ds\<rparr>) =
     (trace_of (setupTopology cfg gpio state) w)[5 := RateGroupDriver_configure ds (length ds)]
   \<and> trace_of (setupTopology cfg gpio state) w ! 5 =
       RateGroupDriver_configure (rateGroupDivisors w) (length (rateGroupDivisors w))
   \<and> rateGroupDivisors (setupTopology cfg gpio state w) = rateGroupDivisors w
   \<and> (DIVIDER_SIZE cfg = 3 \<longrightarrow>
        rateGroupDivisors (initial_world cfg :: 'w::len word world) = [1, 2, 4]
        \<and> RateClockConfig_validate [1, 2, 4] = Inr [1, 2, 4])"
  by (simp add: trace_of_setupTopology wiring_calls_def configure_calls_def
        setupTopology_eq calls_fields initial_world_def RateClockConfig_validate_def)

theorem divisors_passed_unvalidated_witness:
  "DIVIDER_SIZE example_config = 3
   \<and> rateGroupDivisors (initial_world example_config :: 16 word world) = [1, 2, 4]
   \<and> RateClockConfig_validate [1, 2, 4] = Inr [1, 2, 4]
   \<and> trace_of (setupTopology example_config gpio_ok state_localhost)
        (initial_world example_config) ! 5 = RateGroupDriver_configure [1, 2, 4] 3"
  using divisors_passed_unvalidated [where cfg = example_config and gpio = gpio_ok
          and state = state_localhost and w = "initial_world example_config"
          and ds = "[1, 2, 4]"]
  by (simp add: example_config_def initial_world_def)

text \<open>
  The claim as written says that a sequence with a divisor below 1 is rejected. The
  validation of the spec rejects 1, 0, 4; bring-up, with these divisors in the array,
  passes them to the driver and goes on to start the tasks.
\<close>

theorem invalid_divisors_accepted_counterexample:
  "RateClockConfig_validate [1, 0, 4] = Inl ConfigurationError
   \<and> RateGroupDriver_configure [1, 0, 4] 3 \<in>
       set (events (setupTopology example_config gpio_ok state_no_endpoint
              ((initial_world example_config)\<lparr>rateGroupDivisors := [1, 0, 4]\<rparr>)))
   \<and> last (events (setupTopology example_config gpio_ok state_no_endpoint
              ((initial_world example_config)\<lparr>rateGroupDivisors := [1, 0, 4]\<rparr>))) =
       StartTasks state_no_endpoint"
  by (simp add: setupTopology_eq calls_fields wiring_calls_def configure_calls_def gpio_ok_def
        network_calls_def state_no_endpoint_def RateClockConfig_validate_def initial_world_def)

subsection \<open>Failure to open the hardware line\<close>

text \<open>
  C7. When the hardware line fails to open, bring-up does not stop. Right after the call
  that opens the line it prints one line, \<open>[ERROR] Failed to open GPIO pin\<close>; it then
  starts the tasks and, when the state has an endpoint, the network task. That line is
  the only difference from a bring-up in which the line opens: without it the calls are
  the same, and so is the rest of the world.
\<close>

theorem gpio_failure_does_not_abort_setup:
  "\<not> gpio 13 GPIO_OUT \<Longrightarrow>
     trace_of (setupTopology cfg gpio state) w =
       wiring_calls state @ configure_calls cfg w
         @ [Printf ''[ERROR] Failed to open GPIO pin\<newline>'', StartTasks state]
         @ network_calls cfg state
     \<and> last (configure_calls cfg w) = GpioDriver_open 13 GPIO_OUT
     \<and> filter is_Printf (trace_of (setupTopology cfg gpio state) w) =
         [Printf ''[ERROR] Failed to open GPIO pin\<newline>'']
     \<and> filter (\<lambda>e. \<not> is_Printf e) (trace_of (setupTopology cfg gpio state) w) =
         trace_of (setupTopology cfg gpio_ok state) w
     \<and> setupTopology cfg gpio state w =
         (setupTopology cfg gpio_ok state w)
           \<lparr>events := events w @ trace_of (setupTopology cfg gpio state) w\<rparr>"
  by (cases "hostname state")
     (simp_all add: trace_of_setupTopology setupTopology_eq wiring_calls_def configure_calls_def
        gpio_error_line_def network_calls_def gpio_ok_def calls_def)

theorem gpio_failure_does_not_abort_setup_witness:
  "\<not> gpio_failing 13 GPIO_OUT
   \<and> filter is_Printf (trace_of (setupTopology example_config gpio_failing state_localhost)
        (initial_world example_config)) =
       [Printf ''[ERROR] Failed to open GPIO pin\<newline>'']
   \<and> drop 18 (trace_of (setupTopology example_config gpio_failing state_localhost)
        (initial_world example_config)) =
       [StartTasks state_localhost, Comm_configure ''127.0.0.1'' 50000,
        Comm_startSocketTask ''ReceiveTask'' True 100 65536]"
proof -
  have h: "\<not> gpio_failing 13 GPIO_OUT" by (simp add: gpio_failing_def)
  show ?thesis
    using h gpio_failure_does_not_abort_setup [where gpio = gpio_failing
            and cfg = example_config and state = state_localhost
            and w = "initial_world example_config", OF h]
    by (simp add: wiring_calls_def configure_calls_def network_calls_def
          state_localhost_def example_config_def COMM_PRIORITY_def)
qed

subsection \<open>The socket task at tear-down\<close>

text \<open>
  C10. For every state, tear-down stops and joins the socket task. It does so also when
  the state has no host or has port zero, in which case bring-up made no call on
  \<^verbatim>\<open>comm\<close>: it neither configured the socket nor started its task.
\<close>

theorem teardown_always_stops_and_joins_socket_task:
  "filter is_comm_call (trace_of (teardownTopology state) w) =
     [Comm_stopSocketTask, Comm_joinSocketTask]
   \<and> (hostname state = None \<or> port state = 0 \<longrightarrow>
        filter is_comm_call (trace_of (setupTopology cfg gpio state) w') = [])"
  by (cases "hostname state")
     (simp_all add: trace_of_teardownTopology teardown_calls_def comm_calls_setup
        network_calls_def)

theorem teardown_always_stops_and_joins_socket_task_witness:
  "hostname state_no_endpoint = None
   \<and> filter is_comm_call (trace_of (setupTopology example_config gpio_ok state_no_endpoint)
        (initial_world example_config)) = []
   \<and> filter is_comm_call (trace_of (teardownTopology state_no_endpoint)
        (setupTopology example_config gpio_ok state_no_endpoint (initial_world example_config))) =
       [Comm_stopSocketTask, Comm_joinSocketTask]"
  using teardown_always_stops_and_joins_socket_task [where state = state_no_endpoint
          and w = "setupTopology example_config gpio_ok state_no_endpoint (initial_world example_config)"
          and cfg = example_config and gpio = gpio_ok and w' = "initial_world example_config"]
  by (simp add: state_no_endpoint_def)

subsection \<open>The simulated cycle\<close>

lemma step_cycleFlag:
  "cycleFlag (snd (startSimulatedCycle_step ms s)) = cycleFlag (snd s)"
  by (cases s)
     (simp add: startSimulatedCycle_step_def read_cycleFlag_def call_calls calls_fields
        Let_def split: cycle_pc.split)

lemma sys_step_cycleFlag:
  "sys_step ms s s' \<Longrightarrow> cycleFlag (snd s') \<Longrightarrow> cycleFlag (snd s)"
  by (auto simp: sys_step_def step_cycleFlag stopSimulatedCycle_def)

lemma sys_steps_cycleFlag:
  "(sys_step ms)\<^sup>*\<^sup>* s s' \<Longrightarrow> cycleFlag (snd s') \<Longrightarrow> cycleFlag (snd s)"
  by (induction rule: rtranclp_induct) (auto dest: sys_step_cycleFlag)

lemma returned_ok_step:
  "sys_step ms s s' \<Longrightarrow> returned_ok s \<Longrightarrow> returned_ok s'"
  by (cases s)
     (auto simp: sys_step_def returned_ok_def startSimulatedCycle_step_def read_cycleFlag_def
        stopSimulatedCycle_def Let_def split: cycle_pc.splits if_splits)

lemma returned_ok_steps:
  "(sys_step ms)\<^sup>*\<^sup>* s s' \<Longrightarrow> returned_ok s \<Longrightarrow> returned_ok s'"
  by (induction rule: rtranclp_induct) (auto dest: returned_ok_step)

lemma stopped_step:
  "sys_step ms s s' \<Longrightarrow> \<not> cycleFlag (snd s) \<Longrightarrow>
     ticks s' + pending_ticks s' = ticks s + pending_ticks s"
  by (cases s)
     (auto simp: sys_step_def ticks_def pending_ticks_def startSimulatedCycle_step_def
        read_cycleFlag_def stopSimulatedCycle_def call_def Let_def split: cycle_pc.splits)

lemma stopped_steps:
  "(sys_step ms)\<^sup>*\<^sup>* s s' \<Longrightarrow> \<not> cycleFlag (snd s) \<Longrightarrow>
     \<not> cycleFlag (snd s') \<and> ticks s' + pending_ticks s' = ticks s + pending_ticks s"
proof (induction rule: rtranclp_induct)
  case base
  then show ?case by simp
next
  case (step y z)
  then show ?case using stopped_step [of ms y z] sys_step_cycleFlag [of ms y z] by auto
qed

lemma returns_when_stopped:
  "\<not> cycleFlag (snd s) \<Longrightarrow> pc (fst ((startSimulatedCycle_step ms ^^ 3) s)) = Returned"
  by (cases s)
     (simp add: numeral_3_eq_3 startSimulatedCycle_step_def read_cycleFlag_def call_calls
        calls_fields Let_def split: cycle_pc.split)

lemma iteration_running:
  "pc t = Entry_read \<or> pc t = Loop_read \<Longrightarrow> cycleFlag w \<Longrightarrow>
     (startSimulatedCycle_step ms ^^ 3) (t, w) =
       (\<lparr>pc = Loop_read, cycling = True\<rparr>, calls [BlockDrv_callIsr, Task_delay ms] w)"
  by (auto simp: numeral_3_eq_3 startSimulatedCycle_step_def read_cycleFlag_def call_calls
        calls_calls calls_fields Let_def)

lemma iteration_stopped:
  "pc t = Entry_read \<or> pc t = Loop_read \<Longrightarrow> \<not> cycleFlag w \<Longrightarrow>
     startSimulatedCycle_step ms (t, w) = (\<lparr>pc = Returned, cycling = False\<rparr>, w)"
  by (auto simp: startSimulatedCycle_step_def read_cycleFlag_def Let_def)

text \<open>One run: the thread reads the flag true, a stop comes, the thread ticks once and returns.\<close>

lemma entry_to_stopped: "(sys_step 1000)\<^sup>*\<^sup>* thread_at_entry thread_stopped_before_tick"
proof -
  let ?w = "initial_world example_config :: 16 word world"
  let ?s1 = "(\<lparr>pc = Loop_callIsr, cycling = True\<rparr>, ?w)"
  have 1: "sys_step 1000 thread_at_entry ?s1"
    by (simp add: sys_step_def thread_at_entry_def startSimulatedCycle_step_def
          read_cycleFlag_def initial_world_def)
  have 2: "sys_step 1000 ?s1 thread_stopped_before_tick"
    by (simp add: sys_step_def thread_stopped_before_tick_def)
  from 1 2 show ?thesis by (meson rtranclp.rtrancl_into_rtrancl rtranclp.rtrancl_refl)
qed

lemma stopped_to_returned: "(sys_step 1000)\<^sup>*\<^sup>* thread_stopped_before_tick thread_returned"
proof -
  let ?w = "stopSimulatedCycle (initial_world example_config) :: 16 word world"
  let ?s2 = "(\<lparr>pc = Loop_delay, cycling = True\<rparr>, call BlockDrv_callIsr ?w)"
  let ?s3 = "(\<lparr>pc = Loop_read, cycling = True\<rparr>,
              call (Task_delay 1000) (call BlockDrv_callIsr ?w))"
  have 1: "sys_step 1000 thread_stopped_before_tick ?s2"
    by (simp add: sys_step_def thread_stopped_before_tick_def startSimulatedCycle_step_def)
  have 2: "sys_step 1000 ?s2 ?s3"
    by (simp add: sys_step_def startSimulatedCycle_step_def)
  have 3: "sys_step 1000 ?s3 thread_returned"
    by (simp add: sys_step_def thread_returned_def startSimulatedCycle_step_def
          read_cycleFlag_def stopSimulatedCycle_def call_def initial_world_def)
  from 1 2 3 show ?thesis by (meson rtranclp.rtrancl_into_rtrancl rtranclp.rtrancl_refl)
qed

text \<open>
  C8. The thread that runs \<^verbatim>\<open>startSimulatedCycle\<close> returns only after it has read
  the flag false: whenever it has returned, its last read gave false and the flag is
  false. Once the flag is false, whatever the two threads do next, the tick is called at
  most one more time, and the thread has returned after at most three steps of its own.
  One iteration, from a read that finds the flag true, is that read, one call of the
  tick and one delay of the given number of milliseconds, which brings the thread to the
  next read; a read that finds the flag false makes the thread return with no further call.
\<close>

theorem cycle_returns_after_flag_false:
  "(pc (fst s0) = Entry_read \<and> (sys_step ms)\<^sup>*\<^sup>* s0 s1 \<and> pc (fst s1) = Returned \<longrightarrow>
      \<not> cycling (fst s1) \<and> \<not> cycleFlag (snd s1))
   \<and> (\<not> cycleFlag (snd s) \<and> (sys_step ms)\<^sup>*\<^sup>* s s' \<longrightarrow>
        ticks s' \<le> ticks s + 1
        \<and> pc (fst ((startSimulatedCycle_step ms ^^ 3) s')) = Returned)
   \<and> ((pc t = Entry_read \<or> pc t = Loop_read) \<and> cycleFlag w \<longrightarrow>
        (startSimulatedCycle_step ms ^^ 3) (t, w) =
          (\<lparr>pc = Loop_read, cycling = True\<rparr>,
           w\<lparr>events := events w @ [BlockDrv_callIsr, Task_delay ms]\<rparr>))
   \<and> ((pc t' = Entry_read \<or> pc t' = Loop_read) \<and> \<not> cycleFlag w' \<longrightarrow>
        startSimulatedCycle_step ms (t', w') = (\<lparr>pc = Returned, cycling = False\<rparr>, w'))"
proof (intro conjI impI)
  assume a: "pc (fst s0) = Entry_read \<and> (sys_step ms)\<^sup>*\<^sup>* s0 s1 \<and> pc (fst s1) = Returned"
  then have "returned_ok s0" by (simp add: returned_ok_def)
  with a have "returned_ok s1" using returned_ok_steps by blast
  with a show "\<not> cycling (fst s1)" and "\<not> cycleFlag (snd s1)"
    by (simp_all add: returned_ok_def)
next
  assume a: "\<not> cycleFlag (snd s) \<and> (sys_step ms)\<^sup>*\<^sup>* s s'"
  then have b: "\<not> cycleFlag (snd s') \<and> ticks s' + pending_ticks s' = ticks s + pending_ticks s"
    using stopped_steps by blast
  then show "ticks s' \<le> ticks s + 1" by (simp add: pending_ticks_def split: if_splits)
  from b show "pc (fst ((startSimulatedCycle_step ms ^^ 3) s')) = Returned"
    by (simp add: returns_when_stopped)
next
  assume "(pc t = Entry_read \<or> pc t = Loop_read) \<and> cycleFlag w"
  then show "(startSimulatedCycle_step ms ^^ 3) (t, w) =
          (\<lparr>pc = Loop_read, cycling = True\<rparr>,
           w\<lparr>events := events w @ [BlockDrv_callIsr, Task_delay ms]\<rparr>)"
    using iteration_running [of t w ms] by (simp add: calls_def)
next
  assume "(pc t' = Entry_read \<or> pc t' = Loop_read) \<and> \<not> cycleFlag w'"
  then show "startSimulatedCycle_step ms (t', w') = (\<lparr>pc = Returned, cycling = False\<rparr>, w')"
    using iteration_stopped [of t' w' ms] by simp
qed

theorem cycle_returns_after_flag_false_witness:
  "pc (fst thread_at_entry) = Entry_read
   \<and> (sys_step 1000)\<^sup>*\<^sup>* thread_at_entry thread_returned
   \<and> pc (fst thread_returned) = Returned
   \<and> \<not> cycling (fst thread_returned) \<and> \<not> cycleFlag (snd thread_returned)
   \<and> \<not> cycleFlag (snd thread_stopped_before_tick)
   \<and> (sys_step 1000)\<^sup>*\<^sup>* thread_stopped_before_tick thread_returned
   \<and> ticks thread_stopped_before_tick = 0 \<and> ticks thread_returned = 1
   \<and> ticks thread_returned \<le> ticks thread_stopped_before_tick + 1
   \<and> pc (fst ((startSimulatedCycle_step 1000 ^^ 3) thread_returned)) = Returned
   \<and> cycleFlag (snd thread_at_entry)
   \<and> (startSimulatedCycle_step 1000 ^^ 3) thread_at_entry =
       (\<lparr>pc = Loop_read, cycling = True\<rparr>,
        (snd thread_at_entry)\<lparr>events := [BlockDrv_callIsr, Task_delay 1000]\<rparr>)
   \<and> startSimulatedCycle_step 1000
        (\<lparr>pc = Loop_read, cycling = True\<rparr>, snd thread_stopped_before_tick) =
       (\<lparr>pc = Returned, cycling = False\<rparr>, snd thread_stopped_before_tick)"
proof -
  have r: "(sys_step 1000)\<^sup>*\<^sup>* thread_at_entry thread_returned"
    using entry_to_stopped stopped_to_returned by (rule rtranclp_trans)
  show ?thesis
    using r stopped_to_returned
      cycle_returns_after_flag_false [where ms = 1000 and ?s0.0 = thread_at_entry
        and ?s1.0 = thread_returned and s = thread_stopped_before_tick
        and s' = thread_returned and t = "fst thread_at_entry" and w = "snd thread_at_entry"
        and t' = "\<lparr>pc = Loop_read, cycling = True\<rparr>"
        and w' = "snd thread_stopped_before_tick"]
    by (simp add: thread_at_entry_def thread_stopped_before_tick_def thread_returned_def
          stopSimulatedCycle_def initial_world_def ticks_def)
qed

subsection \<open>The flag\<close>

text \<open>
  C9. The flag is true at process start. \<^verbatim>\<open>stopSimulatedCycle\<close> sets it false, and a
  second call leaves the world as the first left it. Bring-up, tear-down and the steps
  of the cycle thread leave the flag as it is, so once the flag is false it is false in
  every later state of the two threads.
\<close>

theorem stop_idempotent_flag_monotone:
  "cycleFlag (initial_world cfg :: 'w::len word world)
   \<and> \<not> cycleFlag (stopSimulatedCycle w)
   \<and> stopSimulatedCycle (stopSimulatedCycle w) = stopSimulatedCycle w
   \<and> cycleFlag (setupTopology cfg gpio state w) = cycleFlag w
   \<and> cycleFlag (teardownTopology state w) = cycleFlag w
   \<and> cycleFlag (snd (startSimulatedCycle_step ms (t, w))) = cycleFlag w
   \<and> ((sys_step ms)\<^sup>*\<^sup>* s s' \<and> \<not> cycleFlag (snd s) \<longrightarrow> \<not> cycleFlag (snd s'))"
  using sys_steps_cycleFlag [of ms s s']
  by (auto simp: initial_world_def stopSimulatedCycle_def setupTopology_eq teardownTopology_eq
        calls_fields step_cycleFlag)

theorem stop_idempotent_flag_monotone_witness:
  "(sys_step 1000)\<^sup>*\<^sup>* thread_stopped_before_tick thread_returned
   \<and> \<not> cycleFlag (snd thread_stopped_before_tick)
   \<and> \<not> cycleFlag (snd thread_returned)
   \<and> cycleFlag (initial_world example_config :: 16 word world)
   \<and> stopSimulatedCycle (stopSimulatedCycle (initial_world example_config :: 16 word world)) =
       stopSimulatedCycle (initial_world example_config)"
  using stopped_to_returned
    stop_idempotent_flag_monotone [where ms = 1000 and s = thread_stopped_before_tick
      and s' = thread_returned and cfg = example_config
      and w = "initial_world example_config :: 16 word world"
      and gpio = gpio_ok and state = state_no_endpoint and t = "fst thread_at_entry"]
  by (simp add: thread_stopped_before_tick_def stopSimulatedCycle_def initial_world_def)

end
